theory Spec2Isabelle
  imports Main
begin

section \<open>JavaScript strings\<close>

text \<open>
  Strings are lists of characters. The string methods the two services call are
  written out: \<open>startsWith\<close>, \<open>includes\<close> (here \<open>includesStr\<close>), \<open>toLowerCase\<close>
  and \<open>replace\<close> with a string pattern, which replaces the first occurrence
  only. \<open>toLowerCase\<close> lowers the ASCII letters and leaves every other
  character as it is, where JavaScript lowers every cased letter: the model
  follows the code on strings whose letters are ASCII letters.
\<close>

definition startsWith :: "string \<Rightarrow> string \<Rightarrow> bool" where
  "startsWith s p = (take (length p) s = p)"

fun includesStr :: "string \<Rightarrow> string \<Rightarrow> bool" where
  "includesStr [] p = (p = [])"
| "includesStr (c # cs) p = (startsWith (c # cs) p \<or> includesStr cs p)"

definition toLowerChar :: "char \<Rightarrow> char" where
  "toLowerChar c =
     (case map_of (zip ''ABCDEFGHIJKLMNOPQRSTUVWXYZ'' ''abcdefghijklmnopqrstuvwxyz'') c of
        None \<Rightarrow> c
      | Some l \<Rightarrow> l)"

definition toLowerCase :: "string \<Rightarrow> string" where
  "toLowerCase s = map toLowerChar s"

fun replaceFirst :: "string \<Rightarrow> string \<Rightarrow> string \<Rightarrow> string" where
  "replaceFirst p r [] = (if p = [] then r else [])"
| "replaceFirst p r (c # cs) =
     (if startsWith (c # cs) p then r @ drop (length p) (c # cs)
      else c # replaceFirst p r cs)"

section \<open>Module market: \<open>modules/module-market/backend/server.js\<close>\<close>

subsection \<open>Module records\<close>

text \<open>
  A module record is the object \<open>JSON.parse\<close> returns for a \<open>module.json\<close>; the
  top-level value of the file is taken to be an object or \<open>null\<close>. No field is
  checked by the service, so each one may be missing (\<open>None\<close> is JavaScript's
  \<open>undefined\<close>); a field that is there has the type the data model gives it.
  The field \<open>type\<close> is called \<open>mtype\<close> here.
\<close>

record backend =
  url :: "string option"
  prefix :: "string option"

record frontend =
  entry :: "string option"
  activeRule :: "string option"

record module =
  name :: "string option"
  displayName :: "string option"
  version :: "string option"
  mtype :: "string option"
  description :: "string option"
  enabled :: "bool option"
  backend :: "backend option"
  frontend :: "frontend option"
  path :: "string option"
  hasBackend :: "bool option"
  hasFrontend :: "bool option"

subsection \<open>The modules directory\<close>

text \<open>
  What \<open>scanModules\<close> reads from the file system. \<open>readdirSync\<close> either throws
  or lists the entries. For an entry, \<open>moduleJson\<close> tells whether \<open>module.json\<close>
  exists and what the \<open>try\<close> block around \<open>readFileSync\<close>, \<open>JSON.parse\<close> and the
  three assignments does with it: it throws, with a message (the file cannot be
  read, is not JSON, or holds \<open>null\<close>), or it gets an object. \<open>backendDir\<close> and
  \<open>frontendDir\<close> are the two \<open>existsSync\<close> probes.
\<close>

datatype descriptor_file =
    NoDescriptor
  | Unparsable string
  | Descriptor module

record dir_entry =
  entryName :: string
  isDirectory :: bool
  moduleJson :: descriptor_file
  backendDir :: bool
  frontendDir :: bool

type_synonym modules_dir = "string + dir_entry list"

text \<open>The lines \<open>scanModules\<close> writes to the console.\<close>

datatype scan_log =
    LogScanning string
  | LogLoaded "string option" "string option"
  | LogParseFailed string string
  | LogSkipped string
  | LogCount nat
  | LogScanFailed string

definition pathJoin :: "string \<Rightarrow> string \<Rightarrow> string" where
  "pathJoin dir n = dir @ ''/'' @ n"

subsection \<open>\<open>scanModules\<close>\<close>

text \<open>
  The body of the \<open>for\<close> loop, for one entry: \<open>modules\<close> is the list built so
  far and \<open>out\<close> the console.
\<close>

definition scanEntry ::
  "string \<Rightarrow> module list \<times> scan_log list \<Rightarrow> dir_entry \<Rightarrow> module list \<times> scan_log list" where
  "scanEntry dir acc e =
     (case acc of (modules, out) \<Rightarrow>
        if isDirectory e \<and> startsWith (entryName e) ''module-'' then
          (case moduleJson e of
             Descriptor d \<Rightarrow>
               (let m = d\<lparr>path := Some (pathJoin dir (entryName e)),
                          hasBackend := Some (backendDir e),
                          hasFrontend := Some (frontendDir e)\<rparr>
                in (modules @ [m], out @ [LogLoaded (name m) (displayName m)]))
           | Unparsable msg \<Rightarrow> (modules, out @ [LogParseFailed (entryName e) msg])
           | NoDescriptor \<Rightarrow> (modules, out @ [LogSkipped (entryName e)]))
        else (modules, out))"

definition scanModules :: "string \<Rightarrow> modules_dir \<Rightarrow> module list \<times> scan_log list" where
  "scanModules dir fs =
     (case fs of
        Inl err \<Rightarrow> ([], [LogScanning dir, LogScanFailed err])
      | Inr entries \<Rightarrow>
          (case foldl (scanEntry dir) ([], [LogScanning dir]) entries of
             (modules, out) \<Rightarrow> (modules, out @ [LogCount (length modules)])))"



subsection \<open>What one entry contributes\<close>

definition scanned :: "dir_entry \<Rightarrow> bool" where
  "scanned e = (isDirectory e \<and> startsWith (entryName e) ''module-'')"

definition loaded :: "string \<Rightarrow> dir_entry \<Rightarrow> module option" where
  "loaded dir e =
     (if scanned e then
        (case moduleJson e of
           Descriptor d \<Rightarrow>
             Some (d\<lparr>path := Some (pathJoin dir (entryName e)),
                     hasBackend := Some (backendDir e),
                     hasFrontend := Some (frontendDir e)\<rparr>)
         | Unparsable msg \<Rightarrow> None
         | NoDescriptor \<Rightarrow> None)
      else None)"


subsection \<open>The cache and its HTTP handlers\<close>

text \<open>
  \<open>cachedModules\<close> is the one global variable of the service: every handler
  takes it as an argument, and \<open>postRefresh\<close> returns its new value. A handler
  that throws is answered by the error middleware with status 500.
\<close>

datatype js_error = TypeError

record query =
  qtype :: "string option"
  qenabled :: "string option"
  qsearch :: "string option"

record stats =
  statTotal :: nat
  statEnabled :: nat
  statDisabled :: nat
  statWithBackend :: nat
  statWithFrontend :: nat
  statByType :: "(string \<times> nat) list"

datatype market_response =
    ModuleList "module list"
  | ModuleDetail module
  | ModuleNotFound string
  | StatsReport stats
  | Refreshed nat
  | InternalServerError js_error

definition statusOf :: "market_response \<Rightarrow> nat" where
  "statusOf r =
     (case r of
        ModuleList ms \<Rightarrow> 200
      | ModuleDetail m \<Rightarrow> 200
      | ModuleNotFound n \<Rightarrow> 404
      | StatsReport s \<Rightarrow> 200
      | Refreshed n \<Rightarrow> 200
      | InternalServerError e \<Rightarrow> 500)"

text \<open>
  The callback of the search filter. \<open>m.name.toLowerCase()\<close> throws a
  \<open>TypeError\<close> when \<open>m.name\<close> is undefined, and so does \<open>m.displayName\<close> when
  the name did not match; only \<open>m.description\<close> is guarded.
\<close>

definition searchCallback :: "string \<Rightarrow> module \<Rightarrow> js_error + bool" where
  "searchCallback searchLower m =
     (case name m of
        None \<Rightarrow> Inl TypeError
      | Some n \<Rightarrow>
          if includesStr (toLowerCase n) searchLower then Inr True
          else
            (case displayName m of
               None \<Rightarrow> Inl TypeError
             | Some d \<Rightarrow>
                 if includesStr (toLowerCase d) searchLower then Inr True
                 else
                   (case description m of
                      None \<Rightarrow> Inr False
                    | Some t \<Rightarrow> Inr (t \<noteq> [] \<and> includesStr (toLowerCase t) searchLower))))"

text \<open>\<open>Array.prototype.filter\<close> with a callback that may throw.\<close>

fun filterThrowing :: "('a \<Rightarrow> js_error + bool) \<Rightarrow> 'a list \<Rightarrow> js_error + 'a list" where
  "filterThrowing f [] = Inr []"
| "filterThrowing f (x # xs) =
     (case f x of
        Inl err \<Rightarrow> Inl err
      | Inr keep \<Rightarrow>
          (case filterThrowing f xs of
             Inl err \<Rightarrow> Inl err
           | Inr ys \<Rightarrow> Inr (if keep then x # ys else ys)))"

definition getModules :: "module list \<Rightarrow> query \<Rightarrow> market_response" where
  "getModules cachedModules q =
     (let modules = cachedModules;
          modules =
            (case qtype q of
               None \<Rightarrow> modules
             | Some t \<Rightarrow> if t = [] then modules else filter (\<lambda>m. mtype m = Some t) modules);
          modules =
            (case qenabled q of
               None \<Rightarrow> modules
             | Some e \<Rightarrow> filter (\<lambda>m. enabled m = Some (e = ''true'')) modules)
      in case qsearch q of
           None \<Rightarrow> ModuleList modules
         | Some s \<Rightarrow>
             if s = [] then ModuleList modules
             else
               (case filterThrowing (searchCallback (toLowerCase s)) modules of
                  Inl err \<Rightarrow> InternalServerError err
                | Inr found \<Rightarrow> ModuleList found))"

definition getModuleByName :: "module list \<Rightarrow> string \<Rightarrow> market_response" where
  "getModuleByName cachedModules n =
     (case find (\<lambda>m. name m = Some n) cachedModules of
        None \<Rightarrow> ModuleNotFound n
      | Some m \<Rightarrow> ModuleDetail m)"

text \<open>
  \<open>stats.byType[type] = (stats.byType[type] || 0) + 1\<close>, keys in insertion order.
  The types are taken to be words that are neither integers nor names of
  members of \<open>Object.prototype\<close>, which a JavaScript object orders or stores
  differently.
\<close>

fun countType :: "string \<Rightarrow> (string \<times> nat) list \<Rightarrow> (string \<times> nat) list" where
  "countType t [] = [(t, 1)]"
| "countType t ((k, n) # kvs) =
     (if k = t then (k, n + 1) # kvs else (k, n) # countType t kvs)"

definition typeKey :: "module \<Rightarrow> string" where
  "typeKey m = (case mtype m of None \<Rightarrow> ''unknown'' | Some t \<Rightarrow> if t = [] then ''unknown'' else t)"

definition moduleStats :: "module list \<Rightarrow> stats" where
  "moduleStats cachedModules =
     \<lparr>statTotal = length cachedModules,
      statEnabled = length (filter (\<lambda>m. enabled m = Some True) cachedModules),
      statDisabled = length (filter (\<lambda>m. \<not> (enabled m = Some True)) cachedModules),
      statWithBackend = length (filter (\<lambda>m. hasBackend m = Some True) cachedModules),
      statWithFrontend = length (filter (\<lambda>m. hasFrontend m = Some True) cachedModules),
      statByType = foldl (\<lambda>byType m. countType (typeKey m) byType) [] cachedModules\<rparr>"

definition getStats :: "module list \<Rightarrow> market_response" where
  "getStats cachedModules = StatsReport (moduleStats cachedModules)"

text \<open>\<open>POST /api/refresh\<close>: the new value of \<open>cachedModules\<close> and the response.\<close>

definition postRefresh ::
  "string \<Rightarrow> modules_dir \<Rightarrow> module list \<Rightarrow> module list \<times> market_response" where
  "postRefresh dir fs cachedModules =
     (let cachedModules' = fst (scanModules dir fs)
      in (cachedModules', Refreshed (length cachedModules')))"

section \<open>API gateway: \<open>api-gateway/index.js\<close>\<close>

subsection \<open>Requests, responses and backends\<close>

datatype http_method = GET | HEAD | POST | PUT | DELETE | PATCH | OPTIONS

record request =
  reqMethod :: http_method
  reqUrl :: string

text \<open>
  The request the proxy sends to a backend: the method of the client's request,
  the target with the rewritten path, and the two headers of \<open>onProxyReq\<close>.
\<close>

record proxy_request =
  proxyMethod :: http_method
  proxyUrl :: string
  xGateway :: string
  xModuleName :: string

datatype backend_reply = BackendReply nat string

text \<open>
  The backends, as the gateway sees them: a proxied request gets a transport
  error (with its message) or the backend's reply.
\<close>

type_synonym upstream = "proxy_request \<Rightarrow> string + backend_reply"

datatype response =
    NoContent
  | Healthy
  | Running
  | NotFound string
  | BadGateway string string
  | Relayed proxy_request backend_reply
  | CannotHandle

definition statusCode :: "response \<Rightarrow> nat" where
  "statusCode r =
     (case r of
        NoContent \<Rightarrow> 204
      | Healthy \<Rightarrow> 200
      | Running \<Rightarrow> 200
      | NotFound u \<Rightarrow> 404
      | BadGateway n details \<Rightarrow> 502
      | Relayed out (BackendReply code body) \<Rightarrow> code
      | CannotHandle \<Rightarrow> 404)"

subsection \<open>Modules and routes\<close>

text \<open>
  The gateway reads two properties of a module object, \<open>name\<close> and \<open>backend\<close>;
  \<open>getDefaultModules\<close> builds objects with just these two. The name is a string.
\<close>

record gateway_module =
  gname :: string
  gbackend :: "backend option"

text \<open>
  The three values a proxy middleware closes over: \<open>prefix\<close>, \<open>targetUrl\<close> and
  \<open>module.name\<close>.
\<close>

record route =
  routePrefix :: string
  targetUrl :: string
  moduleName :: string

subsection \<open>The Express application\<close>

text \<open>
  An application is the list of its layers, in the order of the \<open>app.use\<close> and
  \<open>app.get\<close> calls. A request goes down the list: a layer that does not match is
  skipped, a handler that calls \<open>next()\<close> passes the request on, a handler that
  answers ends the walk. When the list is exhausted Express answers 404 itself.

  Mount paths and route paths are plain paths here (no pattern characters).
  Express compares them without regard to case; \<open>app.use(path, ...)\<close> matches a
  request path that continues after \<open>path\<close> with a \<open>/\<close> or ends there, and
  \<open>app.get(path, ...)\<close> matches the path itself, with or without a final \<open>/\<close>,
  for GET and HEAD. The query string is not part of the path.
\<close>

datatype handler =
    Cors
  | JsonBody
  | UrlencodedBody
  | RequestLog
  | HealthCheck
  | GatewayStatus
  | NotFoundHandler
  | ErrorHandler
  | Proxy route

datatype layer =
    Use handler
  | UseAt string handler
  | Get string handler

datatype outcome = Next | Respond response

definition pathname :: "string \<Rightarrow> string" where
  "pathname u = takeWhile (\<lambda>c. c \<noteq> CHR ''?'') u"

definition stripSlash :: "string \<Rightarrow> string" where
  "stripSlash p = (if p \<noteq> [] \<and> last p = CHR ''/'' then butlast p else p)"

definition mountMatch :: "string \<Rightarrow> string \<Rightarrow> bool" where
  "mountMatch mount p =
     (let m = toLowerCase (stripSlash mount);
          s = toLowerCase p;
          rest = drop (length m) s
      in startsWith s m \<and> (rest = [] \<or> hd rest = CHR ''/''))"

definition routeMatch :: "string \<Rightarrow> string \<Rightarrow> bool" where
  "routeMatch r p =
     (let m = toLowerCase (stripSlash r);
          s = toLowerCase p
      in s = m \<or> s = m @ ''/'')"

fun layerHandler :: "layer \<Rightarrow> handler" where
  "layerHandler (Use h) = h"
| "layerHandler (UseAt p h) = h"
| "layerHandler (Get p h) = h"

fun layerMatches :: "layer \<Rightarrow> request \<Rightarrow> bool" where
  "layerMatches (Use h) req = True"
| "layerMatches (UseAt p h) req = mountMatch p (pathname (reqUrl req))"
| "layerMatches (Get p h) req =
     ((reqMethod req = GET \<or> reqMethod req = HEAD) \<and> routeMatch p (pathname (reqUrl req)))"

text \<open>
  The proxy middleware of one route. \<open>pathRewrite\<close> is given the URL of the
  client's request and removes the first occurrence of the prefix; \<open>onError\<close>
  answers 502 with the module's name and \<open>err.message\<close>.

  The request goes to the origin of the target, with the path the proxy's
  \<open>urlJoin\<close> makes of the target's path and the rewritten URL: the two are joined
  by a \<open>/\<close>, runs of \<open>/\<close> are collapsed and the query string is kept, so an empty
  rewritten URL is sent as \<open>/\<close> and \<open>items\<close> as \<open>/items\<close>. A target has the form
  \<open>scheme://authority\<close>, followed by a path or not.

  The middleware is modelled for a request whose body no body parser has read,
  and for a backend that answers or fails: the code sets no timeout, and a
  backend that stays silent gets no answer from the gateway.
\<close>

definition pathRewrite :: "route \<Rightarrow> string \<Rightarrow> string" where
  "pathRewrite r p = replaceFirst (routePrefix r) [] p"

fun collapseSlashes :: "string \<Rightarrow> string" where
  "collapseSlashes (a # b # cs) =
     (if a = CHR ''/'' \<and> b = CHR ''/'' then collapseSlashes (b # cs)
      else a # collapseSlashes (b # cs))"
| "collapseSlashes cs = cs"

definition urlJoin :: "string \<Rightarrow> string \<Rightarrow> string" where
  "urlJoin base outgoing =
     (let p = takeWhile (\<lambda>c. c \<noteq> CHR ''?'') outgoing;
          query = dropWhile (\<lambda>c. c \<noteq> CHR ''?'') outgoing;
          joined = (if base = [] then p else if p = [] then base else base @ ''/'' @ p)
      in replaceFirst ''https:/'' ''https://''
           (replaceFirst ''http:/'' ''http://'' (collapseSlashes joined)) @ query)"

fun afterScheme :: "string \<Rightarrow> string" where
  "afterScheme (a # b # c # cs) =
     (if a = CHR '':'' \<and> b = CHR ''/'' \<and> c = CHR ''/'' then cs
      else afterScheme (b # c # cs))"
| "afterScheme cs = []"

definition targetPath :: "string \<Rightarrow> string" where
  "targetPath t =
     (let p = dropWhile (\<lambda>c. c \<noteq> CHR ''/'') (afterScheme t)
      in if p = [] then ''/'' else p)"

definition targetOrigin :: "string \<Rightarrow> string" where
  "targetOrigin t =
     take (length t - length (dropWhile (\<lambda>c. c \<noteq> CHR ''/'') (afterScheme t))) t"

definition proxyRequest :: "route \<Rightarrow> request \<Rightarrow> proxy_request" where
  "proxyRequest r req =
     \<lparr>proxyMethod = reqMethod req,
      proxyUrl =
        targetOrigin (targetUrl r) @
        urlJoin (targetPath (targetUrl r)) (pathRewrite r (reqUrl req)),
      xGateway = ''Cancer-API-Gateway'',
      xModuleName = moduleName r\<rparr>"

definition proxyMiddleware :: "upstream \<Rightarrow> route \<Rightarrow> request \<Rightarrow> response" where
  "proxyMiddleware up r req =
     (case up (proxyRequest r req) of
        Inl message \<Rightarrow> BadGateway (moduleName r) message
      | Inr reply \<Rightarrow> Relayed (proxyRequest r req) reply)"

text \<open>
  What each handler does with a request. \<open>cors()\<close> answers an OPTIONS request
  itself; the body parsers and the logger pass every request on (request bodies
  are taken to parse); the error handler has four parameters and is skipped
  while no error is pending.
\<close>

fun runHandler :: "upstream \<Rightarrow> handler \<Rightarrow> request \<Rightarrow> outcome" where
  "runHandler up Cors req = (if reqMethod req = OPTIONS then Respond NoContent else Next)"
| "runHandler up JsonBody req = Next"
| "runHandler up UrlencodedBody req = Next"
| "runHandler up RequestLog req = Next"
| "runHandler up HealthCheck req = Respond Healthy"
| "runHandler up GatewayStatus req = Respond Running"
| "runHandler up NotFoundHandler req = Respond (NotFound (reqUrl req))"
| "runHandler up ErrorHandler req = Next"
| "runHandler up (Proxy r) req = Respond (proxyMiddleware up r req)"

fun handle :: "upstream \<Rightarrow> layer list \<Rightarrow> request \<Rightarrow> response" where
  "handle up [] req = CannotHandle"
| "handle up (l # ls) req =
     (if layerMatches l req then
        (case runHandler up (layerHandler l) req of
           Next \<Rightarrow> handle up ls req
         | Respond r \<Rightarrow> r)
      else handle up ls req)"

subsection \<open>Start-up\<close>

datatype gateway_log =
    LogStarting
  | LogFetching
  | LogFetched nat
  | LogFetchFailed string
  | LogUsingDefaults
  | LogRegister string string
  | LogRoutesDone
  | LogListening
  | LogRefreshing

record gateway =
  stack :: "layer list"
  console :: "gateway_log list"

text \<open>
  The registrations the script makes while it is loaded, in source order (lines
  24 to 171): the middleware, the two status routes, the 404 handler and the
  error handler. \<open>startGateway\<close> is called on the last line of the script.
\<close>

definition app :: gateway where
  "app =
     \<lparr>stack =
        [Use Cors, Use JsonBody, Use UrlencodedBody, Use RequestLog,
         Get ''/health'' HealthCheck,
         Get ''/api/gateway/status'' GatewayStatus,
         Use NotFoundHandler,
         Use ErrorHandler],
      console = []\<rparr>"

text \<open>The outcome of \<open>axios.get\<close> on the market's \<open>/api/modules\<close>.\<close>

datatype fetch_result =
    FetchFailed string
  | FetchOk "gateway_module list"

definition getDefaultModules :: "gateway_module list" where
  "getDefaultModules =
     [\<lparr>gname = ''module-market'',
       gbackend = Some \<lparr>url = Some ''http://localhost:3001'',
                        prefix = Some ''/api/module-market''\<rparr>\<rparr>,
      \<lparr>gname = ''module-user'',
       gbackend = Some \<lparr>url = Some ''http://localhost:3002'',
                        prefix = Some ''/api/user''\<rparr>\<rparr>]"

definition fetchModulesFromMarket ::
  "fetch_result \<Rightarrow> gateway \<Rightarrow> gateway_module list \<times> gateway" where
  "fetchModulesFromMarket res g =
     (case res of
        FetchOk modules \<Rightarrow>
          (modules, g\<lparr>console := console g @ [LogFetching, LogFetched (length modules)]\<rparr>)
      | FetchFailed message \<Rightarrow>
          (getDefaultModules,
           g\<lparr>console := console g @ [LogFetching, LogFetchFailed message, LogUsingDefaults]\<rparr>))"

text \<open>
  The callback of \<open>modules.forEach\<close>. An empty string is falsy, so an empty
  \<open>backend.url\<close> registers nothing and an empty \<open>backend.prefix\<close> gives the default
  prefix.
\<close>

definition registerModule :: "gateway \<Rightarrow> gateway_module \<Rightarrow> gateway" where
  "registerModule g m =
     (case gbackend m of
        None \<Rightarrow> g
      | Some b \<Rightarrow>
          (case url b of
             None \<Rightarrow> g
           | Some u \<Rightarrow>
               if u = [] then g
               else
                 (let p = (case prefix b of
                             None \<Rightarrow> ''/api/'' @ gname m
                           | Some bp \<Rightarrow> if bp = [] then ''/api/'' @ gname m else bp);
                      r = \<lparr>routePrefix = p, targetUrl = u, moduleName = gname m\<rparr>
                  in g\<lparr>stack := stack g @ [UseAt p (Proxy r)],
                       console := console g @ [LogRegister p u]\<rparr>)))"

definition setupDynamicRoutes :: "fetch_result \<Rightarrow> gateway \<Rightarrow> gateway" where
  "setupDynamicRoutes res g =
     (case fetchModulesFromMarket res g of
        (modules, g') \<Rightarrow>
          (let g'' = foldl registerModule g' modules
           in g''\<lparr>console := console g'' @ [LogRoutesDone]\<rparr>))"

text \<open>
  \<open>startGateway\<close> up to \<open>app.listen\<close>, and the callback of \<open>setInterval\<close>, which
  writes one line to the console.
\<close>

definition startGateway :: "fetch_result \<Rightarrow> gateway" where
  "startGateway res =
     (let g = setupDynamicRoutes res (app\<lparr>console := [LogStarting]\<rparr>)
      in g\<lparr>console := console g @ [LogListening]\<rparr>)"

definition refreshTick :: "gateway \<Rightarrow> gateway" where
  "refreshTick g = g\<lparr>console := console g @ [LogRefreshing]\<rparr>"

subsection \<open>The route table\<close>

text \<open>
  The routes of a gateway are the routes of the proxy layers on its stack, in
  stack order. \<open>moduleRoute\<close> is the route one module stands for, if any, and
  \<open>buildRoutes\<close> the routes of a snapshot.
\<close>

fun layerRoute :: "layer \<Rightarrow> route option" where
  "layerRoute (UseAt p (Proxy r)) = Some r"
| "layerRoute l = None"

definition routeTable :: "gateway \<Rightarrow> route list" where
  "routeTable g = List.map_filter layerRoute (stack g)"

definition routeLayer :: "route \<Rightarrow> layer" where
  "routeLayer r = UseAt (routePrefix r) (Proxy r)"

definition defaultPrefix :: "gateway_module \<Rightarrow> string" where
  "defaultPrefix m = ''/api/'' @ gname m"

definition moduleRoute :: "gateway_module \<Rightarrow> route option" where
  "moduleRoute m =
     (case gbackend m of
        None \<Rightarrow> None
      | Some b \<Rightarrow>
          (case url b of
             None \<Rightarrow> None
           | Some u \<Rightarrow>
               if u = [] then None
               else
                 Some \<lparr>routePrefix =
                         (case prefix b of
                            None \<Rightarrow> defaultPrefix m
                          | Some bp \<Rightarrow> if bp = [] then defaultPrefix m else bp),
                       targetUrl = u,
                       moduleName = gname m\<rparr>))"

definition buildRoutes :: "gateway_module list \<Rightarrow> route list" where
  "buildRoutes ms = List.map_filter moduleRoute ms"

section \<open>The specification's notions\<close>




text \<open>What the code tells apart instead: a descriptor that parses, one that throws.\<close>

definition parses :: "dir_entry \<Rightarrow> bool" where
  "parses e =
     (scanned e \<and>
      (case moduleJson e of
         Descriptor d \<Rightarrow> True
       | Unparsable msg \<Rightarrow> False
       | NoDescriptor \<Rightarrow> False))"


text \<open>
  The filters of \<open>GET /api/modules\<close> on \<open>type\<close> and \<open>enabled\<close>: exact match on
  \<open>type\<close>, where a parameter that is empty filters nothing, and exact match of
  \<open>enabled\<close> with the boolean the parameter stands for.
\<close>

definition matchesType :: "query \<Rightarrow> module \<Rightarrow> bool" where
  "matchesType q m = (case qtype q of None \<Rightarrow> True | Some t \<Rightarrow> t = [] \<or> mtype m = Some t)"

definition matchesEnabled :: "query \<Rightarrow> module \<Rightarrow> bool" where
  "matchesEnabled q m =
     (case qenabled q of None \<Rightarrow> True | Some e \<Rightarrow> enabled m = Some (e = ''true''))"

section \<open>Concrete inputs\<close>

text \<open>The object \<open>{}\<close>, and descriptors built from it.\<close>

definition emptyObject :: module where
  "emptyObject =
     \<lparr>name = None, displayName = None, version = None, mtype = None, description = None,
      enabled = None, backend = None, frontend = None, path = None, hasBackend = None,
      hasFrontend = None\<rparr>"

definition userModule :: module where
  "userModule =
     emptyObject\<lparr>name := Some ''module-user'', displayName := Some ''User Admin'',
                 mtype := Some ''business'', enabled := Some True\<rparr>"

definition marketModule :: module where
  "marketModule =
     emptyObject\<lparr>name := Some ''module-market'', displayName := Some ''Market'',
                 mtype := Some ''core'', description := Some ''Module registry''\<rparr>"

definition moduleDir :: "string \<Rightarrow> descriptor_file \<Rightarrow> dir_entry" where
  "moduleDir n f =
     \<lparr>entryName = n, isDirectory = True, moduleJson = f, backendDir = True,
      frontendDir = False\<rparr>"

text \<open>
  Gateway modules: \<open>moduleX\<close> is the registry entry of the specification,
  \<open>moduleY\<close> gives no prefix, \<open>moduleW\<close> an empty prefix and \<open>moduleZ\<close> an empty
  URL.
\<close>

definition moduleX :: gateway_module where
  "moduleX =
     \<lparr>gname = ''module-x'',
      gbackend = Some \<lparr>url = Some ''http://x:9000'', prefix = Some ''/api/x''\<rparr>\<rparr>"

definition moduleY :: gateway_module where
  "moduleY =
     \<lparr>gname = ''module-y'',
      gbackend = Some \<lparr>url = Some ''http://y:9000'', prefix = None\<rparr>\<rparr>"

definition moduleW :: gateway_module where
  "moduleW =
     \<lparr>gname = ''module-w'',
      gbackend = Some \<lparr>url = Some ''http://w:9000'', prefix = Some []\<rparr>\<rparr>"

definition moduleZ :: gateway_module where
  "moduleZ =
     \<lparr>gname = ''module-z'',
      gbackend = Some \<lparr>url = Some [], prefix = Some ''/api/z''\<rparr>\<rparr>"

definition routeX :: route where
  "routeX = \<lparr>routePrefix = ''/api/x'', targetUrl = ''http://x:9000'', moduleName = ''module-x''\<rparr>"

text \<open>Backends that all answer, and backends of which \<open>module-x\<close> refuses connections.\<close>

definition allUp :: upstream where
  "allUp out = Inr (BackendReply 200 ''ok'')"

definition xDown :: upstream where
  "xDown out =
     (if xModuleName out = ''module-x'' then Inl ''ECONNREFUSED''
      else Inr (BackendReply 200 ''ok''))"

definition getRequest :: "string \<Rightarrow> request" where
  "getRequest u = \<lparr>reqMethod = GET, reqUrl = u\<rparr>"

section \<open>The scanner\<close>

lemma fst_scanEntry:
  "fst (scanEntry dir (ms, out) e) = ms @ (case loaded dir e of None \<Rightarrow> [] | Some m \<Rightarrow> [m])"
  by (simp add: scanEntry_def loaded_def scanned_def Let_def split: descriptor_file.split)


lemma fst_foldl_scanEntry:
  "fst (foldl (scanEntry dir) (ms, out) es) = ms @ List.map_filter (loaded dir) es"
proof (induction es arbitrary: ms out)
  case Nil
  show ?case by simp
next
  case (Cons e es)
  obtain ms' out' where step: "scanEntry dir (ms, out) e = (ms', out')"
    by (cases "scanEntry dir (ms, out) e")
  have "ms' = ms @ (case loaded dir e of None \<Rightarrow> [] | Some m \<Rightarrow> [m])"
    using fst_scanEntry [of dir ms out e] step by simp
  then show ?case
    using Cons.IH [of ms' out'] step
    by (simp split: option.split)
qed


lemma scanModules_modules:
  "fst (scanModules dir (Inr es)) = List.map_filter (loaded dir) es"
proof -
  obtain ms out where run: "foldl (scanEntry dir) ([], [LogScanning dir]) es = (ms, out)"
    by (cases "foldl (scanEntry dir) ([], [LogScanning dir]) es")
  have "ms = List.map_filter (loaded dir) es"
    using fst_foldl_scanEntry [of dir "[]" "[LogScanning dir]" es] run by simp
  then show ?thesis
    by (simp add: scanModules_def run)
qed


lemma length_map_filter_loaded:
  "length (List.map_filter (loaded dir) es) = length (filter parses es)"
  by (induction es) (auto simp: loaded_def parses_def split: descriptor_file.split)





section \<open>The cache\<close>

text \<open>
  Claim C2, as stated, fails: when the modules directory cannot be read, the
  refresh replaces a snapshot of one module by the empty snapshot and reports
  success with count 0, not an error.
\<close>

theorem refresh_rollback_counterexample:
  "postRefresh ''/srv'' (Inl ''ENOENT'') [userModule] = ([], Refreshed 0)"
  by (simp add: postRefresh_def scanModules_def Let_def)

text \<open>
  Claim C2, amended. A refresh always replaces the snapshot by the result of the
  scan, whatever the snapshot was, and reports success with the new count. When
  the directory cannot be read the result of the scan is empty: the snapshot
  becomes empty and the count is 0.
\<close>

theorem refresh_replaces:
  "postRefresh dir (Inr es) cached =
     (List.map_filter (loaded dir) es, Refreshed (length (List.map_filter (loaded dir) es))) \<and>
   postRefresh dir (Inl err) cached = ([], Refreshed 0)"
  by (simp add: postRefresh_def scanModules_modules Let_def) (simp add: scanModules_def)

text \<open>A refresh that loads one module, and one that cannot read the directory.\<close>

theorem refresh_replaces_witness:
  "postRefresh ''/srv'' (Inr [moduleDir ''module-user'' (Descriptor userModule)]) [marketModule] =
     ([userModule\<lparr>path := Some ''/srv/module-user'', hasBackend := Some True,
                  hasFrontend := Some False\<rparr>], Refreshed 1) \<and>
   postRefresh ''/srv'' (Inl ''EACCES'') [marketModule] = ([], Refreshed 0)"
  using refresh_replaces [of "''/srv''" "[moduleDir ''module-user'' (Descriptor userModule)]"
      "[marketModule]" "''EACCES''"]
  by (simp add: loaded_def scanned_def moduleDir_def pathJoin_def startsWith_def)

section \<open>The query interface\<close>

text \<open>
  Without a search the handler cannot throw: on every snapshot it answers with
  the records that pass the filters on \<open>type\<close> and \<open>enabled\<close>.
\<close>

lemma filters_without_search:
  assumes "qsearch q = None \<or> qsearch q = Some []"
  shows "getModules cached q =
     ModuleList (filter (\<lambda>m. matchesType q m \<and> matchesEnabled q m) cached)"
proof -
  define byType where
    "byType = (case qtype q of None \<Rightarrow> cached
               | Some t \<Rightarrow> if t = [] then cached else filter (\<lambda>m. mtype m = Some t) cached)"
  define byEnabled where
    "byEnabled = (case qenabled q of None \<Rightarrow> byType
                  | Some e \<Rightarrow> filter (\<lambda>m. enabled m = Some (e = ''true'')) byType)"
  have t: "byType = filter (matchesType q) cached"
    by (cases "qtype q") (simp_all add: byType_def matchesType_def [abs_def])
  have e: "byEnabled = filter (\<lambda>m. matchesType q m \<and> matchesEnabled q m) cached"
    by (cases "qenabled q") (simp_all add: byEnabled_def t matchesEnabled_def [abs_def])
  have run: "getModules cached q =
     (case qsearch q of
        None \<Rightarrow> ModuleList byEnabled
      | Some s \<Rightarrow>
          if s = [] then ModuleList byEnabled
          else (case filterThrowing (searchCallback (toLowerCase s)) byEnabled of
                  Inl err \<Rightarrow> InternalServerError err
                | Inr found \<Rightarrow> ModuleList found))"
    unfolding getModules_def Let_def byEnabled_def byType_def ..
  from assms show ?thesis
    by (auto simp: run e)
qed

text \<open>A record without a name makes the search callback throw, whatever is searched.\<close>

lemma searchCallback_no_name: "name m = None \<Longrightarrow> searchCallback s m = Inl TypeError"
  by (simp add: searchCallback_def)

text \<open>
  Claim C7 at a snapshot that a refresh built from the descriptor \<open>{}\<close>: the
  search for \<open>user\<close> is answered with status 500 and no list of records, as
  \<open>m.name.toLowerCase()\<close> throws, while the same request without the search is
  answered with the snapshot.
\<close>

theorem search_throws_without_name:
  "fst (postRefresh ''/srv'' (Inr [moduleDir ''module-a'' (Descriptor emptyObject)]) []) =
     [emptyObject\<lparr>path := Some ''/srv/module-a'', hasBackend := Some True,
                  hasFrontend := Some False\<rparr>] \<and>
   getModules (fst (postRefresh ''/srv'' (Inr [moduleDir ''module-a'' (Descriptor emptyObject)]) []))
     \<lparr>qtype = None, qenabled = None, qsearch = Some ''user''\<rparr> = InternalServerError TypeError \<and>
   statusOf (getModules
     (fst (postRefresh ''/srv'' (Inr [moduleDir ''module-a'' (Descriptor emptyObject)]) []))
     \<lparr>qtype = None, qenabled = None, qsearch = Some ''user''\<rparr>) = 500 \<and>
   getModules (fst (postRefresh ''/srv'' (Inr [moduleDir ''module-a'' (Descriptor emptyObject)]) []))
     \<lparr>qtype = None, qenabled = None, qsearch = None\<rparr> =
     ModuleList [emptyObject\<lparr>path := Some ''/srv/module-a'', hasBackend := Some True,
                             hasFrontend := Some False\<rparr>]"
  by (simp add: postRefresh_def scanModules_modules loaded_def scanned_def moduleDir_def
      pathJoin_def startsWith_def getModules_def searchCallback_def emptyObject_def statusOf_def)

text \<open>
  Claim C9, as stated, fails: a module whose descriptor omits \<open>enabled\<close> is
  cached without the field, is not counted as enabled by \<open>GET /api/stats\<close> and
  is not in the result of \<open>GET /api/modules?enabled=true\<close>.
\<close>

theorem enabled_default_counterexample:
  "map enabled
     (fst (postRefresh ''/srv'' (Inr [moduleDir ''module-market'' (Descriptor marketModule)]) [])) =
     [None] \<and>
   statEnabled (moduleStats
     (fst (postRefresh ''/srv'' (Inr [moduleDir ''module-market'' (Descriptor marketModule)]) []))) =
     0 \<and>
   statDisabled (moduleStats
     (fst (postRefresh ''/srv'' (Inr [moduleDir ''module-market'' (Descriptor marketModule)]) []))) =
     1 \<and>
   getModules
     (fst (postRefresh ''/srv'' (Inr [moduleDir ''module-market'' (Descriptor marketModule)]) []))
     \<lparr>qtype = None, qenabled = Some ''true'', qsearch = None\<rparr> = ModuleList []"
  by (simp add: postRefresh_def scanModules_modules loaded_def scanned_def moduleDir_def
      pathJoin_def startsWith_def getModules_def emptyObject_def marketModule_def moduleStats_def)

lemma length_filter_not_enabled:
  "length (filter (\<lambda>m. \<not> (enabled m = Some True)) ms) =
     length (filter (\<lambda>m. enabled m = Some False) ms) +
     length (filter (\<lambda>m. enabled m = None) ms)"
  by (induction ms) auto

text \<open>
  Claim C9, amended. The \<open>enabled\<close> field has no default. \<open>GET /api/stats\<close> counts
  as enabled the modules whose \<open>enabled\<close> is \<open>true\<close> and as disabled all others,
  those that omit the field included; \<open>GET /api/modules?enabled=...\<close> returns the
  modules whose \<open>enabled\<close> is the boolean asked for, so a module that omits the
  field is in the result for neither value.
\<close>

theorem enabled_not_defaulted:
  "getStats cached = StatsReport (moduleStats cached) \<and>
   statEnabled (moduleStats cached) = length (filter (\<lambda>m. enabled m = Some True) cached) \<and>
   statDisabled (moduleStats cached) =
     length (filter (\<lambda>m. enabled m = Some False) cached) +
     length (filter (\<lambda>m. enabled m = None) cached) \<and>
   getModules cached \<lparr>qtype = None, qenabled = Some e, qsearch = None\<rparr> =
     ModuleList (filter (\<lambda>m. enabled m = Some (e = ''true'')) cached) \<and>
   filter (\<lambda>m. enabled m = None) (filter (\<lambda>m. enabled m = Some (e = ''true'')) cached) = []"
  by (simp add: getStats_def moduleStats_def length_filter_not_enabled getModules_def)

text \<open>\<open>userModule\<close> is enabled, \<open>marketModule\<close> omits the field.\<close>

theorem enabled_not_defaulted_witness:
  "statEnabled (moduleStats [userModule, marketModule]) = 1 \<and>
   statDisabled (moduleStats [userModule, marketModule]) = 1 \<and>
   getModules [userModule, marketModule]
     \<lparr>qtype = None, qenabled = Some ''true'', qsearch = None\<rparr> = ModuleList [userModule] \<and>
   getModules [userModule, marketModule]
     \<lparr>qtype = None, qenabled = Some ''false'', qsearch = None\<rparr> = ModuleList []"
  using enabled_not_defaulted [of "[userModule, marketModule]" "''true''"]
    enabled_not_defaulted [of "[userModule, marketModule]" "''false''"]
  by (simp add: emptyObject_def userModule_def marketModule_def)

lemma find_first_match:
  "P x \<Longrightarrow> \<forall>y\<in>set pre. \<not> P y \<Longrightarrow> find P (pre @ x # post) = Some x"
  by (induction pre) auto

text \<open>
  Claim C10. When several records of the snapshot share a name,
  \<open>GET /api/modules/:name\<close> returns the first of them in snapshot order;
  \<open>GET /api/modules\<close> without parameters returns the whole snapshot, duplicates
  included; and a refresh stores one record for every descriptor that parses,
  whatever the names are.
\<close>

theorem duplicate_names:
  "(name m = Some n \<and> (\<forall>x\<in>set pre. name x \<noteq> Some n) \<longrightarrow>
      getModuleByName (pre @ m # post) n = ModuleDetail m) \<and>
   getModules cached \<lparr>qtype = None, qenabled = None, qsearch = None\<rparr> = ModuleList cached \<and>
   fst (postRefresh dir (Inr es) cached) = List.map_filter (loaded dir) es \<and>
   length (fst (postRefresh dir (Inr es) cached)) = length (filter parses es)"
proof (intro conjI impI)
  assume "name m = Some n \<and> (\<forall>x\<in>set pre. name x \<noteq> Some n)"
  then have "find (\<lambda>x. name x = Some n) (pre @ m # post) = Some m"
    by (intro find_first_match) auto
  then show "getModuleByName (pre @ m # post) n = ModuleDetail m"
    by (simp add: getModuleByName_def)
next
  show "getModules cached \<lparr>qtype = None, qenabled = None, qsearch = None\<rparr> = ModuleList cached"
    by (simp add: getModules_def)
next
  show "fst (postRefresh dir (Inr es) cached) = List.map_filter (loaded dir) es"
    by (simp add: postRefresh_def scanModules_modules Let_def)
  then show "length (fst (postRefresh dir (Inr es) cached)) = length (filter parses es)"
    by (simp add: length_map_filter_loaded)
qed

text \<open>Two descriptors named \<open>module-user\<close>: both are cached, the first is returned.\<close>

theorem duplicate_names_witness:
  "getModuleByName
     [marketModule, userModule\<lparr>version := Some ''1''\<rparr>, userModule\<lparr>version := Some ''2''\<rparr>]
     ''module-user'' = ModuleDetail (userModule\<lparr>version := Some ''1''\<rparr>) \<and>
   getModules [userModule, userModule] \<lparr>qtype = None, qenabled = None, qsearch = None\<rparr> =
     ModuleList [userModule, userModule] \<and>
   map name (fst (postRefresh ''/srv''
       (Inr [moduleDir ''module-user'' (Descriptor userModule),
             moduleDir ''module-user2'' (Descriptor userModule)]) [userModule, userModule])) =
     [Some ''module-user'', Some ''module-user'']"
  using duplicate_names [where m = "userModule\<lparr>version := Some ''1''\<rparr>"
      and n = "''module-user''" and pre = "[marketModule]"
      and post = "[userModule\<lparr>version := Some ''2''\<rparr>]"
      and cached = "[userModule, userModule]" and dir = "''/srv''"
      and es = "[moduleDir ''module-user'' (Descriptor userModule),
                 moduleDir ''module-user2'' (Descriptor userModule)]"]
  by (simp add: emptyObject_def userModule_def marketModule_def loaded_def scanned_def
      moduleDir_def startsWith_def)

section \<open>Building the route table\<close>

text \<open>\<open>forEach\<close> appends one proxy layer for every module that has a route.\<close>

lemma stack_registerModule:
  "stack (registerModule g m) =
     stack g @ (case moduleRoute m of None \<Rightarrow> [] | Some r \<Rightarrow> [routeLayer r])"
  by (simp add: registerModule_def moduleRoute_def routeLayer_def defaultPrefix_def Let_def
      split: option.split)

lemma stack_foldl_registerModule:
  "stack (foldl registerModule g ms) = stack g @ map routeLayer (buildRoutes ms)"
proof (induction ms arbitrary: g)
  case Nil
  show ?case by (simp add: buildRoutes_def)
next
  case (Cons m ms)
  show ?case
    using Cons.IH [of "registerModule g m"]
    by (simp add: stack_registerModule buildRoutes_def split: option.split)
qed

lemma stack_setupDynamicRoutes:
  "stack (setupDynamicRoutes res g) =
     stack g @ map routeLayer
       (buildRoutes (case res of FetchFailed e \<Rightarrow> getDefaultModules | FetchOk ms \<Rightarrow> ms))"
  by (cases res)
    (simp_all add: setupDynamicRoutes_def fetchModulesFromMarket_def Let_def
      stack_foldl_registerModule)

lemma stack_startGateway:
  "stack (startGateway res) =
     stack app @ map routeLayer
       (buildRoutes (case res of FetchFailed e \<Rightarrow> getDefaultModules | FetchOk ms \<Rightarrow> ms))"
  by (simp add: startGateway_def Let_def stack_setupDynamicRoutes)

lemma map_filter_append:
  "List.map_filter f (xs @ ys) = List.map_filter f xs @ List.map_filter f ys"
  by (simp add: List.map_filter_def)

lemma layerRoute_routeLayer: "List.map_filter layerRoute (map routeLayer rs) = rs"
  by (induction rs) (simp_all add: routeLayer_def)

lemma routeTable_app: "List.map_filter layerRoute (stack app) = []"
  by (simp add: app_def)

lemma routeTable_startGateway:
  "routeTable (startGateway res) =
     buildRoutes (case res of FetchFailed e \<Rightarrow> getDefaultModules | FetchOk ms \<Rightarrow> ms)"
  by (simp add: routeTable_def stack_startGateway map_filter_append routeTable_app
      layerRoute_routeLayer)

lemma console_registerModule:
  "console (registerModule g m) =
     console g @
     (case moduleRoute m of
        None \<Rightarrow> []
      | Some r \<Rightarrow> [LogRegister (routePrefix r) (targetUrl r)])"
  by (simp add: registerModule_def moduleRoute_def defaultPrefix_def Let_def
      split: option.split)

lemma console_foldl_registerModule:
  "console (foldl registerModule g ms) =
     console g @ map (\<lambda>r. LogRegister (routePrefix r) (targetUrl r)) (buildRoutes ms)"
proof (induction ms arbitrary: g)
  case Nil
  show ?case by (simp add: buildRoutes_def)
next
  case (Cons m ms)
  show ?case
    using Cons.IH [of "registerModule g m"]
    by (simp add: console_registerModule buildRoutes_def split: option.split)
qed

text \<open>
  Claim C8, as stated, fails. Building is not pure and not free of output:
  for \<open>moduleX\<close> it writes a line to the console and puts a proxy layer on the
  stack of the application. And an empty string counts as absent: \<open>moduleZ\<close> has
  a \<open>backend.url\<close>, the empty string, and yields no route; \<open>moduleW\<close> gives a
  \<open>backend.prefix\<close>, the empty string, and its route has the default prefix.
\<close>

theorem route_table_counterexample:
  "console (registerModule app moduleX) = [LogRegister ''/api/x'' ''http://x:9000''] \<and>
   stack (registerModule app moduleX) = stack app @ [UseAt ''/api/x'' (Proxy routeX)] \<and>
   map_option url (gbackend moduleZ) = Some (Some []) \<and>
   routeTable (startGateway (FetchOk [moduleZ])) = [] \<and>
   map_option prefix (gbackend moduleW) = Some (Some []) \<and>
   map routePrefix (routeTable (startGateway (FetchOk [moduleW]))) = [''/api/module-w'']"
  by (simp add: console_registerModule stack_registerModule routeTable_startGateway
      buildRoutes_def moduleRoute_def routeLayer_def moduleX_def moduleZ_def moduleW_def
      routeX_def defaultPrefix_def)
    (simp add: app_def)

text \<open>
  Claim C8, amended. The routes of a gateway come from the snapshot alone, in
  snapshot order: a module yields a route exactly when it has a backend whose
  \<open>url\<close> is there and not empty. The route's target is that URL, its module name
  the module's name, and its prefix \<open>backend.prefix\<close> when that is there and not
  empty, otherwise \<open>/api/\<close> followed by the module's name. Building is
  deterministic and it has effects, which the snapshot determines as well: for
  every route, in order, it puts a proxy layer on the stack of the application,
  behind the layers that are there, and writes a line with the prefix and the
  target to the console.
\<close>

theorem route_table_building:
  "routeTable (setupDynamicRoutes (FetchOk ms) g) = routeTable g @ buildRoutes ms \<and>
   routeTable (startGateway (FetchOk ms)) = buildRoutes ms \<and>
   stack (startGateway (FetchOk ms)) = stack app @ map routeLayer (buildRoutes ms) \<and>
   stack (foldl registerModule g ms) = stack g @ map routeLayer (buildRoutes ms) \<and>
   console (foldl registerModule g ms) =
     console g @ map (\<lambda>r. LogRegister (routePrefix r) (targetUrl r)) (buildRoutes ms) \<and>
   buildRoutes ms = List.map_filter moduleRoute ms \<and>
   (moduleRoute m \<noteq> None \<longleftrightarrow> (\<exists>b u. gbackend m = Some b \<and> url b = Some u \<and> u \<noteq> [])) \<and>
   (moduleRoute m = Some r \<longrightarrow>
      (\<exists>b. gbackend m = Some b \<and> url b = Some (targetUrl r) \<and> moduleName r = gname m \<and>
           routePrefix r =
             (case prefix b of None \<Rightarrow> ''/api/'' @ gname m
              | Some p \<Rightarrow> if p = [] then ''/api/'' @ gname m else p)))"
proof (intro conjI)
  show "routeTable (setupDynamicRoutes (FetchOk ms) g) = routeTable g @ buildRoutes ms"
    by (simp add: routeTable_def stack_setupDynamicRoutes map_filter_append layerRoute_routeLayer)
  show "routeTable (startGateway (FetchOk ms)) = buildRoutes ms"
    by (simp add: routeTable_startGateway)
  show "stack (startGateway (FetchOk ms)) = stack app @ map routeLayer (buildRoutes ms)"
    by (simp add: stack_startGateway)
  show "stack (foldl registerModule g ms) = stack g @ map routeLayer (buildRoutes ms)"
    by (rule stack_foldl_registerModule)
  show "console (foldl registerModule g ms) =
     console g @ map (\<lambda>r. LogRegister (routePrefix r) (targetUrl r)) (buildRoutes ms)"
    by (rule console_foldl_registerModule)
  show "buildRoutes ms = List.map_filter moduleRoute ms"
    by (simp add: buildRoutes_def)
  show "moduleRoute m \<noteq> None \<longleftrightarrow> (\<exists>b u. gbackend m = Some b \<and> url b = Some u \<and> u \<noteq> [])"
    by (auto simp: moduleRoute_def split: option.splits)
  show "moduleRoute m = Some r \<longrightarrow>
      (\<exists>b. gbackend m = Some b \<and> url b = Some (targetUrl r) \<and> moduleName r = gname m \<and>
           routePrefix r =
             (case prefix b of None \<Rightarrow> ''/api/'' @ gname m
              | Some p \<Rightarrow> if p = [] then ''/api/'' @ gname m else p))"
    by (auto simp: moduleRoute_def defaultPrefix_def split: option.splits if_splits)
qed

text \<open>
  A snapshot of five modules, of which one has no backend and one an empty URL:
  three routes, three layers behind those of \<open>app\<close> and three lines on the
  console.
\<close>

theorem route_table_building_witness:
  "routeTable (startGateway (FetchOk
     [moduleX, \<lparr>gname = ''module-v'', gbackend = None\<rparr>, moduleY, moduleW, moduleZ])) =
     [routeX,
      \<lparr>routePrefix = ''/api/module-y'', targetUrl = ''http://y:9000'', moduleName = ''module-y''\<rparr>,
      \<lparr>routePrefix = ''/api/module-w'', targetUrl = ''http://w:9000'', moduleName = ''module-w''\<rparr>] \<and>
   length (stack (foldl registerModule app
     [moduleX, \<lparr>gname = ''module-v'', gbackend = None\<rparr>, moduleY, moduleW, moduleZ])) =
     length (stack app) + 3 \<and>
   console (foldl registerModule app
     [moduleX, \<lparr>gname = ''module-v'', gbackend = None\<rparr>, moduleY, moduleW, moduleZ]) =
     [LogRegister ''/api/x'' ''http://x:9000'', LogRegister ''/api/module-y'' ''http://y:9000'',
      LogRegister ''/api/module-w'' ''http://w:9000''] \<and>
   moduleRoute moduleX = Some routeX"
  using route_table_building [where g = app and m = moduleX and r = routeX and
      ms = "[moduleX, \<lparr>gname = ''module-v'', gbackend = None\<rparr>, moduleY, moduleW, moduleZ]"]
  by (simp add: buildRoutes_def moduleRoute_def defaultPrefix_def routeLayer_def moduleX_def
      moduleY_def moduleW_def moduleZ_def routeX_def)
    (simp add: app_def)

section \<open>Route resolution\<close>

text \<open>
  The 404 handler is registered while the script is loaded, the proxy layers
  when \<open>startGateway\<close> runs: whatever follows the layers of \<open>app\<close> is never
  reached, so the gateway answers every request as \<open>app\<close> alone does.
\<close>

lemma handle_app: "handle up (stack app @ ls) req = handle up (stack app) req"
  by (simp add: app_def)

lemma startGateway_answers_like_app:
  "handle up (stack (startGateway res)) req = handle up (stack app) req"
  by (simp only: stack_startGateway handle_app)

lemma gateway_responses:
  "handle up (stack (startGateway res)) req \<in> {NoContent, Healthy, Running, NotFound (reqUrl req)}"
  by (simp add: startGateway_answers_like_app app_def)

text \<open>
  Claim C1 at a gateway started with the registry entry of the specification:
  the route for \<open>/api/x\<close> is in the route table, but the request
  \<open>GET /api/x/items\<close> is answered 404 and is not forwarded, although the proxy
  middleware of the route, were it reached, would send it on as
  \<open>GET http://x:9000/items\<close>. The request for \<open>/api/unknown/items\<close> is answered 404
  as the claim says.
\<close>

theorem route_resolution_unreachable:
  "routeTable (startGateway (FetchOk [moduleX])) = [routeX] \<and>
   handle allUp (stack (startGateway (FetchOk [moduleX]))) (getRequest ''/api/x/items'') =
     NotFound ''/api/x/items'' \<and>
   statusCode (handle allUp (stack (startGateway (FetchOk [moduleX])))
     (getRequest ''/api/x/items'')) = 404 \<and>
   proxyMiddleware allUp routeX (getRequest ''/api/x/items'') =
     Relayed \<lparr>proxyMethod = GET, proxyUrl = ''http://x:9000/items'',
              xGateway = ''Cancer-API-Gateway'', xModuleName = ''module-x''\<rparr>
       (BackendReply 200 ''ok'') \<and>
   handle allUp (stack (startGateway (FetchOk [moduleX]))) (getRequest ''/api/unknown/items'') =
     NotFound ''/api/unknown/items''"
  by (simp add: startGateway_answers_like_app routeTable_startGateway)
    (simp add: buildRoutes_def moduleRoute_def moduleX_def routeX_def app_def getRequest_def
      startsWith_def toLowerCase_def toLowerChar_def pathname_def stripSlash_def mountMatch_def
      routeMatch_def proxyMiddleware_def proxyRequest_def pathRewrite_def urlJoin_def
      targetPath_def targetOrigin_def allUp_def statusCode_def)

text \<open>
  Claim C4 at a gateway started with \<open>module-x\<close> and \<open>module-y\<close>, when the backend
  of \<open>module-x\<close> refuses connections: the request for \<open>/api/x/items\<close> is answered
  404, not 502, and so is the request for the prefix of \<open>module-y\<close>, although the
  proxy middleware of \<open>module-x\<close>, were it reached, would answer 502 with the
  module's name and the error text.
\<close>

theorem proxy_failure_unreachable:
  "handle xDown (stack (startGateway (FetchOk [moduleX, moduleY]))) (getRequest ''/api/x/items'') =
     NotFound ''/api/x/items'' \<and>
   statusCode (handle xDown (stack (startGateway (FetchOk [moduleX, moduleY])))
     (getRequest ''/api/x/items'')) = 404 \<and>
   handle xDown (stack (startGateway (FetchOk [moduleX, moduleY])))
     (getRequest ''/api/module-y/items'') = NotFound ''/api/module-y/items'' \<and>
   proxyMiddleware xDown routeX (getRequest ''/api/x/items'') =
     BadGateway ''module-x'' ''ECONNREFUSED'' \<and>
   statusCode (proxyMiddleware xDown routeX (getRequest ''/api/x/items'')) = 502"
  by (simp add: startGateway_answers_like_app app_def getRequest_def startsWith_def
      toLowerCase_def toLowerChar_def pathname_def stripSlash_def mountMatch_def routeMatch_def
      proxyMiddleware_def proxyRequest_def xDown_def routeX_def statusCode_def)

text \<open>
  When the fetch fails the gateway is the one a fetch of the default modules
  gives.
\<close>

lemma degraded_routes:
  "routeTable (startGateway (FetchFailed message)) = buildRoutes getDefaultModules \<and>
   stack (startGateway (FetchFailed message)) = stack (startGateway (FetchOk getDefaultModules))"
  by (simp add: routeTable_startGateway stack_startGateway)

text \<open>
  Claim C5 at a gateway whose fetch was refused: the route table holds the two
  default routes, and requests for both prefixes are answered 404.
\<close>

theorem degraded_startup_unreachable:
  "routeTable (startGateway (FetchFailed ''ECONNREFUSED'')) =
     [\<lparr>routePrefix = ''/api/module-market'', targetUrl = ''http://localhost:3001'',
       moduleName = ''module-market''\<rparr>,
      \<lparr>routePrefix = ''/api/user'', targetUrl = ''http://localhost:3002'',
       moduleName = ''module-user''\<rparr>] \<and>
   handle allUp (stack (startGateway (FetchFailed ''ECONNREFUSED'')))
     (getRequest ''/api/user/users'') = NotFound ''/api/user/users'' \<and>
   handle allUp (stack (startGateway (FetchFailed ''ECONNREFUSED'')))
     (getRequest ''/api/module-market/api/stats'') = NotFound ''/api/module-market/api/stats''"
  by (simp add: startGateway_answers_like_app routeTable_startGateway)
    (simp add: buildRoutes_def moduleRoute_def defaultPrefix_def routeLayer_def
        getDefaultModules_def app_def
      getRequest_def startsWith_def toLowerCase_def toLowerChar_def pathname_def stripSlash_def
      mountMatch_def routeMatch_def)

section \<open>Periodic refresh\<close>

lemma periodic_stack: "routeTable (refreshTick g) = routeTable g"
  by (simp add: refreshTick_def routeTable_def)

text \<open>
  Claim C6, as stated, fails. A gateway started when the market served
  \<open>module-x\<close> keeps its one route at a tick, also when the market now serves
  \<open>module-x\<close> and \<open>module-y\<close>, whose table has two routes.
\<close>

theorem periodic_refresh_counterexample:
  "routeTable (refreshTick (startGateway (FetchOk [moduleX]))) = [routeX] \<and>
   buildRoutes [moduleX, moduleY] =
     [routeX,
      \<lparr>routePrefix = ''/api/module-y'', targetUrl = ''http://y:9000'', moduleName = ''module-y''\<rparr>]"
  by (simp add: periodic_stack routeTable_startGateway buildRoutes_def moduleRoute_def
      defaultPrefix_def
      moduleX_def moduleY_def routeX_def)

text \<open>
  Claim C6, amended. A tick of the interval writes one line to the console: it
  fetches nothing, builds nothing and leaves the stack, and with it the route
  table, as it is. After any number of ticks the route table is the one built at
  start-up.
\<close>

theorem periodic_refresh_noop:
  "stack (refreshTick g) = stack g \<and>
   routeTable (refreshTick g) = routeTable g \<and>
   console (refreshTick g) = console g @ [LogRefreshing] \<and>
   routeTable ((refreshTick ^^ n) g) = routeTable g"
proof -
  have "routeTable ((refreshTick ^^ n) g) = routeTable g"
    by (induction n) (simp_all add: refreshTick_def routeTable_def)
  then show ?thesis
    by (simp add: refreshTick_def routeTable_def)
qed

text \<open>Three ticks after a start with \<open>module-x\<close>, and the console line of a tick.\<close>

theorem periodic_refresh_noop_witness:
  "routeTable ((refreshTick ^^ 3) (startGateway (FetchOk [moduleX]))) = [routeX] \<and>
   console (refreshTick \<lparr>stack = [], console = [LogListening]\<rparr>) = [LogListening, LogRefreshing]"
  using periodic_refresh_noop [of "startGateway (FetchOk [moduleX])" 3]
    periodic_refresh_noop [of "\<lparr>stack = [], console = [LogListening]\<rparr>" 0]
  by (simp add: routeTable_startGateway buildRoutes_def moduleRoute_def defaultPrefix_def
      moduleX_def
      routeX_def)

end
